theory Spec2Isabelle
  imports Main
begin

section \<open>Shared vocabulary of the two widget implementations\<close>

text \<open>
  The repository holds two implementations of the six-cell one-time-passcode widget.
  The \<^emph>\<open>controller variant\<close> (the TypeScript component, with the array \<open>inputs\<close>
  and the number \<open>activeInputIndex\<close>) keeps the cells in component state.  The
  \<^emph>\<open>page variant\<close> (the plain-script page) keeps each digit in the DOM, in the text
  content of a \<open>.digit-display\<close> element, and the focus in the browser.  Both are
  embedded here:
  every handler is a function from the state before the event to the state after it and
  the list of side effects it asks for.  CSS classes, cursors and animation keyframes are
  presentation only and are left out.
\<close>

text \<open>\<open>currentState\<close> ranges over the strings \<open>'default'\<close>, \<open>'success'\<close>, \<open>'error'\<close>.\<close>

datatype ui_state = State_default | State_success | State_error

text \<open>The keys the \<open>keydown\<close> handlers distinguish.\<close>

datatype key = Backspace | ArrowLeft | ArrowRight | Enter | Other_key

text \<open>
  Callbacks handed to \<open>setTimeout\<close> (or waiting behind the \<open>await\<close> of the simulated
  network call), and the side effects a handler requests.
\<close>

datatype task =
    Resume_handleSubmit
  | Clear_inputs
  | Resume_simulateVerification
  | Call_handleSubmit
  | Drop_digit nat string
  | Finish_paste nat

datatype effect =
    Focus nat
  | Shake
  | Set_timeout nat task

text \<open>The verification phase the specification speaks of.\<close>

datatype lifecycle_state = Idle | Verifying | Success | Error

definition is_digit :: "char \<Rightarrow> bool" where
  "is_digit c = (c \<in> set ''0123456789'')"

text \<open>\<open>/^\d$/.test(value)\<close>: exactly one character, and it is a decimal digit.\<close>

definition test_single_digit :: "string \<Rightarrow> bool" where
  "test_single_digit v = (length v = 1 \<and> list_all is_digit v)"

text \<open>\<open>text.replace(/\D/g, '')\<close>.\<close>

definition strip_non_digits :: "string \<Rightarrow> string" where
  "strip_non_digits t = filter is_digit t"

text \<open>
  Array cells.  Reading past the end of a JavaScript array gives \<open>undefined\<close>, which is
  falsy and joins as the empty string; writing past the end extends the array, the holes
  again reading as empty.
\<close>

definition arr_get :: "string list \<Rightarrow> nat \<Rightarrow> string" where
  "arr_get xs i = (if i < length xs then xs ! i else [])"

definition arr_set :: "string list \<Rightarrow> nat \<Rightarrow> string \<Rightarrow> string list" where
  "arr_set xs i v =
     (if i < length xs then xs[i := v] else xs @ replicate (i - length xs) [] @ [v])"

text \<open>Decimal notation, for the count printed on the button (at most two digits).\<close>

definition string_of_nat :: "nat \<Rightarrow> string" where
  "string_of_nat n =
     (if n < 10 then [''0123456789'' ! n]
      else [''0123456789'' ! (n div 10 mod 10), ''0123456789'' ! (n mod 10)])"

definition default_status :: string where
  "default_status = ''Enter 6-digit code from your two factor authenticator APP''"

section \<open>The controller variant\<close>

record controller =
  inputs :: "string list"
  activeInputIndex :: nat
  currentState :: ui_state
  statusText :: string
  isLoading :: bool
  buttonText :: string
  isButtonDisabled :: bool

definition CORRECT_CODE :: string where
  "CORRECT_CODE = ''123456''"

text \<open>\<open>$: currentCode = inputs.join('')\<close>.\<close>

definition currentCode :: "controller \<Rightarrow> string" where
  "currentCode s = concat (inputs s)"

text \<open>
  The reactive block that follows \<open>currentCode\<close>: it recomputes the button and resets an
  error state as soon as the code is non-empty.
\<close>

definition reactive_block :: "controller \<Rightarrow> controller" where
  "reactive_block s =
     (let digitsEntered = int (length (currentCode s));
          digitsLeft = 6 - digitsEntered;
          s1 = (if digitsLeft > 0
                then s\<lparr>isButtonDisabled := True,
                       buttonText := (if digitsLeft = 1 then ''1 digit left''
                                      else string_of_nat (nat digitsLeft) @ '' digits left'')\<rparr>
                else s\<lparr>isButtonDisabled := False, buttonText := ''Verify the code''\<rparr>)
      in if currentState s1 = State_error \<and> digitsEntered > 0
         then s1\<lparr>currentState := State_default, statusText := default_status\<rparr>
         else s1)"

text \<open>
  Svelte runs a reactive block once per update, and only when one of the variables it
  reads has changed since the last update: here \<open>currentCode\<close> or \<open>currentState\<close>.
\<close>

definition flush :: "controller \<Rightarrow> controller \<Rightarrow> controller" where
  "flush old new =
     (if currentCode new \<noteq> currentCode old \<or> currentState new \<noteq> currentState old
      then reactive_block new else new)"

text \<open>
  \<open>inputElements\<close> is declared empty and is meant to be filled by
  \<open>bind:inputElement={inputElements[i]}\<close>; the cell component declares \<open>inputElement\<close>
  without \<open>export\<close>, so nothing is ever bound and the array stays empty.  Every call
  \<open>inputElements[k]?.focus()\<close> is guarded by the optional chain and is therefore skipped:
  the controller moves \<open>activeInputIndex\<close> and asks the browser for nothing.
\<close>

definition inputElements :: "unit list" where
  "inputElements = []"

definition focus_element :: "nat \<Rightarrow> effect list" where
  "focus_element k = (if k < length inputElements then [Focus k] else [])"

definition handleInput :: "nat \<Rightarrow> string \<Rightarrow> controller \<Rightarrow> controller \<times> effect list" where
  "handleInput index v s =
     (if \<not> test_single_digit v then (s, [])
      else let s1 = s\<lparr>inputs := arr_set (inputs s) index v\<rparr>
           in if index < 5
              then (s1\<lparr>activeInputIndex := index + 1\<rparr>, focus_element (index + 1))
              else (s1, []))"

definition handleKeydown :: "nat \<Rightarrow> key \<Rightarrow> controller \<Rightarrow> controller \<times> effect list" where
  "handleKeydown index k s =
     (if k = Backspace then
        (if arr_get (inputs s) index \<noteq> []
         then (s\<lparr>inputs := arr_set (inputs s) index []\<rparr>, [])
         else if index > 0
         then (s\<lparr>inputs := arr_set (inputs s) (index - 1) [],
                  activeInputIndex := index - 1\<rparr>, focus_element (index - 1))
         else (s, []))
      else if k = ArrowLeft \<and> index > 0
      then (s\<lparr>activeInputIndex := index - 1\<rparr>, focus_element (index - 1))
      else if k = ArrowRight \<and> index < 5
      then (s\<lparr>activeInputIndex := index + 1\<rparr>, focus_element (index + 1))
      else (s, []))"

text \<open>The loop \<open>for (let i = 0; i < end - index; i++) inputs[index + i] = pastedData[i]\<close>.\<close>

function paste_loop :: "string list \<Rightarrow> nat \<Rightarrow> string \<Rightarrow> nat \<Rightarrow> nat \<Rightarrow> string list" where
  "paste_loop xs index d i n =
     (if i < n then paste_loop (arr_set xs (index + i) [d ! i]) index d (Suc i) n else xs)"
  by pat_completeness auto
termination
  by (relation "measure (\<lambda>(xs, index, d, i, n). n - i)") auto

declare paste_loop.simps [simp del]

definition handlePaste :: "nat \<Rightarrow> string \<Rightarrow> controller \<Rightarrow> controller \<times> effect list" where
  "handlePaste index rawText s =
     (let pastedData = strip_non_digits rawText
      in if pastedData = [] then (s, [])
         else let endi = min (index + length pastedData) 6;
                  s1 = s\<lparr>inputs := paste_loop (inputs s) index pastedData 0 (endi - index)\<rparr>
              in (s1\<lparr>activeInputIndex := min endi 5\<rparr>, focus_element (min endi 5)))"

text \<open>
  \<open>handleSubmit\<close> up to its \<open>await\<close>: the 1500 ms promise stands for the verification
  call, and \<open>Resume_handleSubmit\<close> is the rest of the function.
\<close>

definition handleSubmit :: "controller \<Rightarrow> controller \<times> effect list" where
  "handleSubmit s =
     (if length (currentCode s) \<noteq> 6 then (s, [])
      else (s\<lparr>isLoading := True\<rparr>, [Set_timeout 1500 Resume_handleSubmit]))"

definition handleSubmit_resume :: "controller \<Rightarrow> controller \<times> effect list" where
  "handleSubmit_resume s =
     (if currentCode s = CORRECT_CODE
      then (s\<lparr>currentState := State_success, buttonText := ''Let's go!'',
               isLoading := False\<rparr>, [])
      else (s\<lparr>currentState := State_error, buttonText := ''Wrong code!'',
               isLoading := False\<rparr>, [Shake, Set_timeout 400 Clear_inputs]))"

text \<open>The callback of the 400 ms timer set on a wrong code.\<close>

definition clear_inputs :: "controller \<Rightarrow> controller \<times> effect list" where
  "clear_inputs s = (s\<lparr>inputs := replicate 6 [], activeInputIndex := 0\<rparr>, focus_element 0)"

text \<open>\<open>on:focus={(e) => (activeInputIndex = e.detail.index)}\<close>.\<close>

definition handleFocus :: "nat \<Rightarrow> controller \<Rightarrow> controller \<times> effect list" where
  "handleFocus index s = (s\<lparr>activeInputIndex := index\<rparr>, [])"

text \<open>
  The button carries \<open>disabled={isButtonDisabled || isLoading}\<close> and
  \<open>on:click={handleSubmit}\<close>: a disabled button delivers no click.
\<close>

definition button_click :: "controller \<Rightarrow> controller \<times> effect list" where
  "button_click s = (if isButtonDisabled s \<or> isLoading s then (s, []) else handleSubmit s)"

datatype event =
    Input nat string
  | Keydown nat key
  | Paste nat string
  | Focus_in nat
  | Click
  | Timer task

text \<open>The callbacks this component schedules; the others belong to the page.\<close>

fun run_task :: "task \<Rightarrow> controller \<Rightarrow> controller \<times> effect list" where
  "run_task Resume_handleSubmit s = handleSubmit_resume s"
| "run_task Clear_inputs s = clear_inputs s"
| "run_task t s = (s, [])"

fun dispatch :: "event \<Rightarrow> controller \<Rightarrow> controller \<times> effect list" where
  "dispatch (Input index v) s = handleInput index v s"
| "dispatch (Keydown index k) s = handleKeydown index k s"
| "dispatch (Paste index t) s = handlePaste index t s"
| "dispatch (Focus_in index) s = handleFocus index s"
| "dispatch Click s = button_click s"
| "dispatch (Timer t) s = run_task t s"

text \<open>One turn of the event loop: the handler runs, then the component updates.\<close>

definition step :: "event \<Rightarrow> controller \<Rightarrow> controller \<times> effect list" where
  "step e s = (flush s (fst (dispatch e s)), snd (dispatch e s))"

text \<open>
  The lifecycle state of the specification, read off the component: \<open>Verifying\<close> while
  \<open>isLoading\<close>, otherwise what \<open>currentState\<close> says.
\<close>

definition lifecycle :: "controller \<Rightarrow> lifecycle_state" where
  "lifecycle s =
     (if isLoading s then Verifying
      else case currentState s of
             State_default \<Rightarrow> Idle
           | State_success \<Rightarrow> Success
           | State_error \<Rightarrow> Error)"

definition init :: controller where
  "init = \<lparr>inputs = replicate 6 [], activeInputIndex = 0, currentState = State_default,
           statusText = default_status, isLoading = False,
           buttonText = ''6 digits left'', isButtonDisabled = True\<rparr>"

section \<open>The page variant\<close>

text \<open>
  The page keeps the digit of cell \<open>i\<close> in the text content of the \<open>.digit-display\<close>
  inside \<open>otpContainers[i]\<close>, and the focus is the browser's: \<open>activeElement\<close> is the
  index of the focused input, or \<open>None\<close> when the focus is elsewhere.  The variables
  \<open>digitsEntered\<close>, \<open>digitsLeft\<close> and \<open>isCodeComplete\<close> are reactive declarations:
  they are recomputed when the component updates, after the handler has returned, so a
  handler reads the values of the previous update.
\<close>

record page =
  digitDisplays :: "string list"
  activeElement :: "nat option"
  currentCode_p :: string
  correctCode :: string
  currentState_p :: ui_state
  isLoading_p :: bool
  buttonText_p :: string
  statusText_p :: string
  isButtonDisabled_p :: bool
  digitsEntered :: nat
  digitsLeft :: int
  isCodeComplete :: bool

text \<open>
  \<open>animateDigitDrop\<close> and \<open>clearDigit\<close> return at once when the container does not
  exist; \<open>list_update\<close> leaves the list alone in that case too.
\<close>

definition animateDigitDrop :: "nat \<Rightarrow> string \<Rightarrow> page \<Rightarrow> page" where
  "animateDigitDrop index digit s = s\<lparr>digitDisplays := (digitDisplays s)[index := digit]\<rparr>"

definition clearDigit :: "nat \<Rightarrow> page \<Rightarrow> page" where
  "clearDigit index s = s\<lparr>digitDisplays := (digitDisplays s)[index := []]\<rparr>"

definition updateCurrentCode :: "page \<Rightarrow> page" where
  "updateCurrentCode s = s\<lparr>currentCode_p := concat (digitDisplays s)\<rparr>"

definition setState :: "ui_state \<Rightarrow> string \<Rightarrow> page \<Rightarrow> page" where
  "setState st message s =
     (let s1 = s\<lparr>currentState_p := st\<rparr>
      in if message \<noteq> [] then s1\<lparr>statusText_p := message\<rparr> else s1)"

definition focus_input :: "nat \<Rightarrow> page \<Rightarrow> page" where
  "focus_input index s = s\<lparr>activeElement := Some index\<rparr>"

text \<open>\<open>handleSubmit\<close> of the page, and the part of \<open>simulateVerification\<close> behind its \<open>await\<close>.\<close>

definition handleSubmit_page :: "page \<Rightarrow> page \<times> effect list" where
  "handleSubmit_page s =
     (if \<not> isCodeComplete s then (setState State_error ''Please enter all 6 digits'' s, [])
      else (s\<lparr>isLoading_p := True\<rparr>, [Set_timeout 1500 Resume_simulateVerification]))"

definition simulateVerification_resume :: "page \<Rightarrow> page \<times> effect list" where
  "simulateVerification_resume s =
     (let s1 = s\<lparr>isLoading_p := False\<rparr>
      in if currentCode_p s1 = correctCode s1
         then (setState State_success default_status s1, [])
         else (setState State_error default_status s1, [Shake]))"

definition handleInput_page :: "nat \<Rightarrow> string \<Rightarrow> page \<Rightarrow> page \<times> effect list" where
  "handleInput_page index v s =
     (if \<not> test_single_digit v then (s, [])
      else let s1 = updateCurrentCode (animateDigitDrop index v s);
               moved = (v \<noteq> [] \<and> index < 6 - 1);
               s2 = (if moved then focus_input (index + 1) s1 else s1)
           in (s2, (if moved then [Focus (index + 1)] else []) @
                   (if isCodeComplete s2 then [Set_timeout 500 Call_handleSubmit] else [])))"

definition handleKeydown_page :: "nat \<Rightarrow> key \<Rightarrow> page \<Rightarrow> page \<times> effect list" where
  "handleKeydown_page index k s =
     (if k = Backspace then
        (if arr_get (digitDisplays s) index = [] \<and> index > 0
         then (updateCurrentCode (focus_input (index - 1) (clearDigit (index - 1) s)),
               [Focus (index - 1)])
         else (updateCurrentCode (clearDigit index s), []))
      else if k = ArrowLeft \<and> index > 0
      then (focus_input (index - 1) s, [Focus (index - 1)])
      else if k = ArrowRight \<and> index < 6 - 1
      then (focus_input (index + 1) s, [Focus (index + 1)])
      else if k = Enter \<and> isCodeComplete s
      then handleSubmit_page s
      else (s, []))"

text \<open>
  The page's paste handler ignores the index it is given: it empties every cell, then
  drops the digits into the cells from the first one on, one timer per digit, and a last
  timer finishes the paste.
\<close>

definition handlePaste_page :: "nat \<Rightarrow> string \<Rightarrow> page \<Rightarrow> page \<times> effect list" where
  "handlePaste_page index rawText s =
     (let pastedData = strip_non_digits rawText
      in if length pastedData > 0
         then (s\<lparr>digitDisplays := map (\<lambda>_. []) (digitDisplays s)\<rparr>,
               map (\<lambda>i. Set_timeout (i * 100) (Drop_digit i [pastedData ! i]))
                   [0 ..< min (length pastedData) 6] @
               [Set_timeout (length pastedData * 100 + 200) (Finish_paste (length pastedData))])
         else (s, []))"

definition finish_paste :: "nat \<Rightarrow> page \<Rightarrow> page \<times> effect list" where
  "finish_paste len s =
     (let s1 = updateCurrentCode s;
          nextIndex = min len (6 - 1)
      in (focus_input nextIndex s1,
          [Focus nextIndex] @ (if len \<ge> 6 then [Set_timeout 500 Call_handleSubmit] else [])))"

text \<open>
  A paste into a cell runs \<open>handlePaste\<close> through the cell's own \<open>on:paste\<close>; the event
  then bubbles to the document, whose listener \<open>handleGlobalPaste\<close> calls \<open>handlePaste\<close>
  once more, with the index of the focused cell, when one of the six inputs has the focus.
\<close>

definition handleGlobalPaste :: "string \<Rightarrow> page \<Rightarrow> page \<times> effect list" where
  "handleGlobalPaste rawText s =
     (case activeElement s of
        None \<Rightarrow> (s, [])
      | Some focusedIndex \<Rightarrow> handlePaste_page focusedIndex rawText s)"

definition paste_event_page :: "nat \<Rightarrow> string \<Rightarrow> page \<Rightarrow> page \<times> effect list" where
  "paste_event_page index rawText s =
     (let r1 = handlePaste_page index rawText s;
          r2 = handleGlobalPaste rawText (fst r1)
      in (fst r2, snd r1 @ snd r2))"

text \<open>The page's button carries \<open>disabled={isButtonDisabled}\<close> and \<open>on:click={handleSubmit}\<close>.\<close>

definition button_click_page :: "page \<Rightarrow> page \<times> effect list" where
  "button_click_page s = (if isButtonDisabled_p s then (s, []) else handleSubmit_page s)"

fun run_task_page :: "task \<Rightarrow> page \<Rightarrow> page \<times> effect list" where
  "run_task_page Resume_simulateVerification s = simulateVerification_resume s"
| "run_task_page Call_handleSubmit s = handleSubmit_page s"
| "run_task_page (Drop_digit i d) s = (animateDigitDrop i d s, [])"
| "run_task_page (Finish_paste len) s = finish_paste len s"
| "run_task_page t s = (s, [])"

fun dispatch_page :: "event \<Rightarrow> page \<Rightarrow> page \<times> effect list" where
  "dispatch_page (Input index v) s = handleInput_page index v s"
| "dispatch_page (Keydown index k) s = handleKeydown_page index k s"
| "dispatch_page (Paste index t) s = paste_event_page index t s"
| "dispatch_page (Focus_in index) s = (focus_input index s, [])"
| "dispatch_page Click s = button_click_page s"
| "dispatch_page (Timer t) s = run_task_page t s"

text \<open>
  The component update of the page.  Every reactive declaration is a function of the
  variables it reads and is the only place that assigns its target, so they are all
  recomputed here, in the order of their dependencies.
\<close>

definition flush_page :: "page \<Rightarrow> page" where
  "flush_page s =
     (let entered = length (currentCode_p s);
          left = 6 - int entered;
          complete = (length (currentCode_p s) = 6 \<and> list_all is_digit (currentCode_p s));
          s1 = s\<lparr>digitsEntered := entered, digitsLeft := left, isCodeComplete := complete\<rparr>
      in if isLoading_p s1 then s1\<lparr>buttonText_p := [], isButtonDisabled_p := True\<rparr>
         else if currentState_p s1 = State_success
         then s1\<lparr>buttonText_p := ''Let's go!'', isButtonDisabled_p := False\<rparr>
         else if currentState_p s1 = State_error
         then s1\<lparr>buttonText_p := ''Wrong code!'', isButtonDisabled_p := False\<rparr>
         else if left > 0
         then s1\<lparr>isButtonDisabled_p := True,
                 buttonText_p := (if left = 1 then ''1 digit left''
                                  else string_of_nat (nat left) @ '' digits left'')\<rparr>
         else s1\<lparr>isButtonDisabled_p := False, buttonText_p := ''Verify the code''\<rparr>)"

definition step_page :: "event \<Rightarrow> page \<Rightarrow> page \<times> effect list" where
  "step_page e s = (flush_page (fst (dispatch_page e s)), snd (dispatch_page e s))"

definition lifecycle_page :: "page \<Rightarrow> lifecycle_state" where
  "lifecycle_page s =
     (if isLoading_p s then Verifying
      else case currentState_p s of
             State_default \<Rightarrow> Idle
           | State_success \<Rightarrow> Success
           | State_error \<Rightarrow> Error)"

definition init_page :: page where
  "init_page = \<lparr>digitDisplays = replicate 6 [], activeElement = Some 0, currentCode_p = [],
               correctCode = ''123456'', currentState_p = State_default, isLoading_p = False,
               buttonText_p = ''6 digits left'', statusText_p = default_status,
               isButtonDisabled_p = True, digitsEntered = 0, digitsLeft = 6,
               isCodeComplete = False\<rparr>"

section \<open>Runs\<close>

text \<open>A sequence of events, each followed by its update; the effects are collected in order.\<close>

fun run :: "event list \<Rightarrow> controller \<Rightarrow> controller \<times> effect list" where
  "run [] s = (s, [])"
| "run (e # es) s = (let r = step e s; r' = run es (fst r) in (fst r', snd r @ snd r'))"

fun run_page :: "event list \<Rightarrow> page \<Rightarrow> page \<times> effect list" where
  "run_page [] s = (s, [])"
| "run_page (e # es) s =
     (let r = step_page e s; r' = run_page es (fst r) in (fst r', snd r @ snd r'))"

text \<open>Whether a list of effects sets a timer for the given callback.\<close>

definition schedules :: "task \<Rightarrow> effect list \<Rightarrow> bool" where
  "schedules t fx = list_ex (\<lambda>f. case f of Set_timeout d t' \<Rightarrow> t' = t | _ \<Rightarrow> False) fx"

section \<open>Sample states\<close>

text \<open>Three digits typed, the focus on the fourth cell.\<close>

definition three_typed :: controller where
  "three_typed = init\<lparr>inputs := [''1'', ''2'', ''3'', [], [], []], activeInputIndex := 3,
                       buttonText := ''3 digits left''\<rparr>"

section \<open>Reachable states and their invariants\<close>

text \<open>
  The component renders exactly six cells, so every cell event carries an index below 6.
  Timers are allowed to fire at any time: this only adds runs.
\<close>

fun valid_event :: "event \<Rightarrow> bool" where
  "valid_event (Input index v) = (index < 6)"
| "valid_event (Keydown index k) = (index < 6)"
| "valid_event (Paste index t) = (index < 6)"
| "valid_event (Focus_in index) = (index < 6)"
| "valid_event Click = True"
| "valid_event (Timer t) = True"

inductive reachable :: "controller \<Rightarrow> bool" where
  reachable_init: "reachable init"
| reachable_step: "reachable s \<Longrightarrow> valid_event e \<Longrightarrow> reachable (fst (step e s))"

text \<open>A cell holds nothing or one decimal digit, and there are six of them.\<close>

definition cell_ok :: "string \<Rightarrow> bool" where
  "cell_ok c = (c = [] \<or> test_single_digit c)"

definition cells_ok :: "controller \<Rightarrow> bool" where
  "cells_ok s = (length (inputs s) = 6 \<and> list_all cell_ok (inputs s))"

text \<open>Some event sequences: typing a wrong code, typing the demo code, erasing six cells.\<close>

definition type_wrong :: "event list" where
  "type_wrong = [Input 0 ''1'', Input 1 ''1'', Input 2 ''1'', Input 3 ''1'', Input 4 ''1'',
                 Input 5 ''1'']"

definition type_correct :: "event list" where
  "type_correct = [Input 0 ''1'', Input 1 ''2'', Input 2 ''3'', Input 3 ''4'', Input 4 ''5'',
                   Input 5 ''6'']"

definition erase_all :: "event list" where
  "erase_all = [Keydown 5 Backspace, Keydown 5 Backspace, Keydown 4 Backspace,
                Keydown 3 Backspace, Keydown 2 Backspace, Keydown 1 Backspace]"

text \<open>
  After an update an error state can only be left standing over an empty code: the
  reactive block resets it otherwise.
\<close>

definition settled :: "controller \<Rightarrow> bool" where
  "settled s = (currentState s = State_error \<longrightarrow> currentCode s = [])"

text \<open>The error state over six empty cells.\<close>

definition error_shown :: controller where
  "error_shown = init\<lparr>currentState := State_error\<rparr>"

section \<open>Array and loop lemmas\<close>

lemma focus_element_skipped: "focus_element k = []"
  by (simp add: focus_element_def inputElements_def)

lemma length_arr_set:
  "length (arr_set xs i v) = max (length xs) (Suc i)"
  by (auto simp: arr_set_def)

lemma arr_get_arr_set_same:
  "arr_get (arr_set xs i v) i = v"
  by (auto simp: arr_get_def arr_set_def nth_append)

lemma arr_get_arr_set_other:
  "j \<noteq> i \<Longrightarrow> arr_get (arr_set xs i v) j = arr_get xs j"
  by (auto simp: arr_get_def arr_set_def nth_append nth_Cons')

lemma paste_loop_length:
  "index + n \<le> length xs \<Longrightarrow> length (paste_loop xs index d i n) = length xs"
proof (induction xs index d i n rule: paste_loop.induct)
  case (1 xs index d i n)
  show ?case
  proof (cases "i < n")
    case True
    with 1 show ?thesis
      by (subst paste_loop.simps) (simp add: arr_set_def)
  next
    case False
    then show ?thesis
      by (subst paste_loop.simps) simp
  qed
qed

lemma paste_loop_nth:
  "index + n \<le> length xs \<Longrightarrow> j < length xs \<Longrightarrow>
   paste_loop xs index d i n ! j =
     (if index + i \<le> j \<and> j < index + n then [d ! (j - index)] else xs ! j)"
proof (induction xs index d i n rule: paste_loop.induct)
  case (1 xs index d i n)
  show ?case
  proof (cases "i < n")
    case True
    have len: "length (arr_set xs (index + i) [d ! i]) = length xs"
      using True 1(2) by (simp add: arr_set_def)
    have step: "paste_loop xs index d i n = paste_loop (arr_set xs (index + i) [d ! i]) index d (Suc i) n"
      using True by (subst paste_loop.simps) simp
    have ih: "paste_loop (arr_set xs (index + i) [d ! i]) index d (Suc i) n ! j =
       (if index + Suc i \<le> j \<and> j < index + n then [d ! (j - index)]
        else arr_set xs (index + i) [d ! i] ! j)"
      using 1(1)[OF True] 1(2,3) len by simp
    show ?thesis
    proof (cases "j = index + i")
      case True
      with \<open>i < n\<close> 1(2,3) show ?thesis
        unfolding step ih by (simp add: arr_set_def)
    next
      case False
      with \<open>i < n\<close> 1(2,3) show ?thesis
        unfolding step ih by (auto simp: arr_set_def)
    qed
  next
    case False
    then have "paste_loop xs index d i n = xs"
      by (subst paste_loop.simps) simp
    moreover from False have "\<not> (index + i \<le> j \<and> j < index + n)"
      by arith
    ultimately show ?thesis by auto
  qed
qed

section \<open>The update keeps cells and focus\<close>

lemma flush_inputs: "inputs (flush old new) = inputs new"
  by (simp add: flush_def reactive_block_def Let_def)

lemma flush_activeInputIndex: "activeInputIndex (flush old new) = activeInputIndex new"
  by (simp add: flush_def reactive_block_def Let_def)

lemma flush_isLoading: "isLoading (flush old new) = isLoading new"
  by (simp add: flush_def reactive_block_def Let_def)

lemma flush_same: "flush s s = s"
  by (simp add: flush_def)

lemma step_inputs: "inputs (fst (step e s)) = inputs (fst (dispatch e s))"
  by (simp add: step_def flush_inputs)

lemma step_activeInputIndex:
  "activeInputIndex (fst (step e s)) = activeInputIndex (fst (dispatch e s))"
  by (simp add: step_def flush_activeInputIndex)

lemma handlePaste_empty:
  "strip_non_digits rawText = [] \<Longrightarrow> step (Paste index rawText) s = (s, [])"
  by (simp add: step_def handlePaste_def flush_same)

lemma handlePaste_inputs:
  assumes "strip_non_digits rawText \<noteq> []"
  shows "inputs (fst (step (Paste index rawText) s)) =
         paste_loop (inputs s) index (strip_non_digits rawText) 0
           (min (index + length (strip_non_digits rawText)) 6 - index)"
  using assms by (simp add: step_inputs handlePaste_def Let_def)

lemma handlePaste_focus:
  assumes "strip_non_digits rawText \<noteq> []"
  shows "activeInputIndex (fst (step (Paste index rawText) s)) =
         min (index + length (strip_non_digits rawText)) 5"
  using assms by (simp add: step_activeInputIndex handlePaste_def Let_def)

section \<open>Invariants of the reachable states\<close>

lemma reactive_block_settled: "settled (reactive_block s)"
  by (auto simp: settled_def reactive_block_def currentCode_def Let_def)

lemma flush_settled: "settled old \<Longrightarrow> settled (flush old new)"
  by (auto simp: flush_def reactive_block_settled) (simp add: settled_def)

lemma step_settled: "settled s \<Longrightarrow> settled (fst (step e s))"
  by (simp add: step_def flush_settled)

lemma cells_ok_flush: "cells_ok (flush old new) = cells_ok new"
  by (simp add: cells_ok_def flush_inputs)

lemma list_all_arr_set:
  "i < length xs \<Longrightarrow> list_all P xs \<Longrightarrow> P v \<Longrightarrow> list_all P (arr_set xs i v)"
  by (auto simp: arr_set_def list_all_iff dest: set_update_subset_insert[THEN subsetD])

lemma cells_ok_handleInput:
  "cells_ok s \<Longrightarrow> index < 6 \<Longrightarrow> cells_ok (fst (handleInput index v s))"
  by (auto simp: cells_ok_def handleInput_def Let_def length_arr_set list_all_arr_set cell_ok_def)

lemma cells_ok_handleKeydown:
  "cells_ok s \<Longrightarrow> index < 6 \<Longrightarrow> cells_ok (fst (handleKeydown index k s))"
  by (auto simp: cells_ok_def handleKeydown_def length_arr_set list_all_arr_set cell_ok_def)

lemma strip_non_digits_nth:
  "k < length (strip_non_digits t) \<Longrightarrow> is_digit (strip_non_digits t ! k)"
  using nth_mem[of k "filter is_digit t"] by (simp add: strip_non_digits_def)

lemma cells_ok_handlePaste:
  assumes "cells_ok s" and "index < 6"
  shows "cells_ok (fst (handlePaste index t s))"
proof (cases "strip_non_digits t = []")
  case True
  with assms show ?thesis by (simp add: handlePaste_def)
next
  case False
  define d where "d = strip_non_digits t"
  define n where "n = min (index + length d) 6 - index"
  from assms have len: "length (inputs s) = 6" and ok: "list_all cell_ok (inputs s)"
    by (simp_all add: cells_ok_def)
  have fit: "index + n \<le> length (inputs s)" and n_le: "n \<le> length d"
    using assms(2) len by (auto simp: n_def)
  have inp: "inputs (fst (handlePaste index t s)) = paste_loop (inputs s) index d 0 n"
    using False by (simp add: handlePaste_def Let_def d_def n_def)
  have l: "length (paste_loop (inputs s) index d 0 n) = 6"
    using paste_loop_length[OF fit] len by simp
  have "cell_ok (paste_loop (inputs s) index d 0 n ! j)" if "j < 6" for j
  proof (cases "index \<le> j \<and> j < index + n")
    case True
    then have "j - index < length d" using n_le by arith
    then have "is_digit (d ! (j - index))"
      unfolding d_def by (rule strip_non_digits_nth)
    then show ?thesis
      using True that len paste_loop_nth[OF fit, of j d 0]
      by (simp add: cell_ok_def test_single_digit_def)
  next
    case False
    then show ?thesis
      using that len ok paste_loop_nth[OF fit, of j d 0]
      by (auto simp: list_all_length)
  qed
  then show ?thesis
    by (simp add: cells_ok_def inp l list_all_length)
qed

lemma list_all_replicate_empty: "list_all cell_ok (replicate n [])"
  by (simp add: list_all_iff cell_ok_def)

lemma cells_ok_run_task:
  "cells_ok s \<Longrightarrow> cells_ok (fst (run_task t s))"
  by (cases t)
     (auto simp: cells_ok_def handleSubmit_resume_def clear_inputs_def list_all_replicate_empty)

lemma cells_ok_dispatch:
  "cells_ok s \<Longrightarrow> valid_event e \<Longrightarrow> cells_ok (fst (dispatch e s))"
proof (cases e)
  case (Input index v)
  then show "cells_ok s \<Longrightarrow> valid_event e \<Longrightarrow> ?thesis" by (simp add: cells_ok_handleInput)
next
  case (Keydown index k)
  then show "cells_ok s \<Longrightarrow> valid_event e \<Longrightarrow> ?thesis" by (simp add: cells_ok_handleKeydown)
next
  case (Paste index t)
  then show "cells_ok s \<Longrightarrow> valid_event e \<Longrightarrow> ?thesis" by (simp add: cells_ok_handlePaste)
next
  case (Focus_in index)
  then show "cells_ok s \<Longrightarrow> valid_event e \<Longrightarrow> ?thesis" by (simp add: cells_ok_def handleFocus_def)
next
  case Click
  then show "cells_ok s \<Longrightarrow> valid_event e \<Longrightarrow> ?thesis"
    by (simp add: cells_ok_def button_click_def handleSubmit_def)
next
  case (Timer t)
  then show "cells_ok s \<Longrightarrow> valid_event e \<Longrightarrow> ?thesis" by (simp add: cells_ok_run_task)
qed

lemma cells_ok_step:
  "cells_ok s \<Longrightarrow> valid_event e \<Longrightarrow> cells_ok (fst (step e s))"
  by (simp add: step_def cells_ok_flush cells_ok_dispatch)

lemma init_invariant: "cells_ok init \<and> settled init"
  by (simp add: cells_ok_def settled_def init_def list_all_replicate_empty)

lemma reachable_invariant: "reachable s \<Longrightarrow> cells_ok s \<and> settled s"
proof (induction rule: reachable.induct)
  case reachable_init
  show ?case by (rule init_invariant)
next
  case (reachable_step s e)
  then show ?case by (simp add: cells_ok_step step_settled)
qed

lemma reachable_run:
  "reachable s \<Longrightarrow> list_all valid_event es \<Longrightarrow> reachable (fst (run es s))"
proof (induction es arbitrary: s)
  case Nil
  then show ?case by simp
next
  case (Cons e es)
  from Cons.prems have "reachable (fst (step e s))"
    by (simp add: reachable_step)
  with Cons show ?case by (simp add: Let_def)
qed

lemma error_shown_run:
  "fst (run (type_wrong @ [Click] @ erase_all @ [Timer Resume_handleSubmit, Timer Clear_inputs]) init)
   = error_shown"
  by code_simp

lemma error_shown_reachable: "reachable error_shown"
proof -
  have "list_all valid_event
     (type_wrong @ [Click] @ erase_all @ [Timer Resume_handleSubmit, Timer Clear_inputs])"
    by (simp add: type_wrong_def erase_all_def)
  from reachable_run[OF reachable_init this] show ?thesis
    by (simp only: error_shown_run)
qed

section \<open>Pasting\<close>

text \<open>
  C1.  In the controller variant, a paste of \<open>rawText\<close> into cell \<open>index\<close> (from 0 to 5)
  first strips every non-digit character, giving \<open>d\<close>.  If \<open>d\<close> is empty the event changes
  nothing and asks for no effect.  Otherwise cell \<open>index + i\<close> receives \<open>d[i]\<close> for every
  \<open>i < min (length d) (6 - index)\<close>, every cell before \<open>index\<close> keeps its value, and the focus
  index becomes \<open>min (index + length d) 5\<close>.  In particular, pasting \<open>99\<close> into cell 4 of
  the cells 1, 2, 3, 4, 5, 6 gives 1, 2, 3, 4, 9, 9.
\<close>

theorem handlePaste_writes_from_index:
  assumes "index \<le> 5" and "length (inputs s) = 6"
  shows "(let d = strip_non_digits rawText; s' = fst (step (Paste index rawText) s) in
           (d = [] \<longrightarrow> step (Paste index rawText) s = (s, [])) \<and>
           (d \<noteq> [] \<longrightarrow>
              (\<forall>i < min (length d) (6 - index). arr_get (inputs s') (index + i) = [d ! i]) \<and>
              (\<forall>j < index. arr_get (inputs s') j = arr_get (inputs s) j) \<and>
              activeInputIndex s' = min (index + length d) 5)) \<and>
         (inputs s = [''1'', ''2'', ''3'', ''4'', ''5'', ''6''] \<longrightarrow>
            inputs (fst (step (Paste 4 ''99'') s)) = [''1'', ''2'', ''3'', ''4'', ''9'', ''9''])"
proof -
  define d where "d = strip_non_digits rawText"
  define n where "n = min (index + length d) 6 - index"
  have n: "n = min (length d) (6 - index)" "index + n \<le> length (inputs s)"
    using assms by (auto simp: n_def)
  have cells: "arr_get (paste_loop (inputs s) index d 0 n) j =
      (if index \<le> j \<and> j < index + n then [d ! (j - index)] else arr_get (inputs s) j)" for j
    using n(2) paste_loop_nth[of index n "inputs s" j d 0] paste_loop_length[of index n "inputs s" d 0]
    by (auto simp: arr_get_def)
  have general: "d \<noteq> [] \<Longrightarrow>
      (\<forall>i < min (length d) (6 - index).
          arr_get (inputs (fst (step (Paste index rawText) s))) (index + i) = [d ! i]) \<and>
      (\<forall>j < index. arr_get (inputs (fst (step (Paste index rawText) s))) j = arr_get (inputs s) j) \<and>
      activeInputIndex (fst (step (Paste index rawText) s)) = min (index + length d) 5"
    using handlePaste_inputs[of rawText index s] handlePaste_focus[of rawText index s] cells n(1)
    unfolding d_def[symmetric] n_def[symmetric] by auto
  have example: "inputs s = [''1'', ''2'', ''3'', ''4'', ''5'', ''6''] \<Longrightarrow>
      inputs (fst (step (Paste 4 ''99'') s)) = [''1'', ''2'', ''3'', ''4'', ''9'', ''9'']"
    by (simp add: step_inputs handlePaste_def strip_non_digits_def is_digit_def Let_def
        paste_loop.simps arr_set_def)
  show ?thesis
    using general handlePaste_empty[of rawText index s] example
    unfolding d_def by (simp add: Let_def)
qed

theorem handlePaste_writes_from_index_witness:
  "(2::nat) \<le> 5 \<and> length (inputs init) = 6 \<and>
   inputs (fst (step (Paste 2 ''7-8 9'') init)) = [[], [], ''7'', ''8'', ''9'', []] \<and>
   activeInputIndex (fst (step (Paste 2 ''7-8 9'') init)) = 5"
proof -
  have cells: "inputs (fst (step (Paste 2 ''7-8 9'') init)) = [[], [], ''7'', ''8'', ''9'', []]"
    by code_simp
  have len: "length (inputs init) = 6"
    by (simp add: init_def)
  have digits: "strip_non_digits ''7-8 9'' = ''789''"
    by (simp add: strip_non_digits_def is_digit_def)
  from handlePaste_writes_from_index[of 2 init "''7-8 9''"] len
  have "activeInputIndex (fst (step (Paste 2 ''7-8 9'') init)) = 5"
    by (simp add: Let_def digits)
  with cells len show ?thesis by simp
qed

section \<open>Backspace\<close>

lemma handleKeydown_Backspace_filled:
  "arr_get (inputs s) index \<noteq> [] \<Longrightarrow>
   handleKeydown index Backspace s = (s\<lparr>inputs := arr_set (inputs s) index []\<rparr>, [])"
  by (simp add: handleKeydown_def)

lemma handleKeydown_Backspace_empty:
  "arr_get (inputs s) index = [] \<Longrightarrow> index > 0 \<Longrightarrow>
   handleKeydown index Backspace s =
     (s\<lparr>inputs := arr_set (inputs s) (index - 1) [], activeInputIndex := index - 1\<rparr>, [])"
  by (simp add: handleKeydown_def focus_element_skipped)

text \<open>
  C7.  For every index, Backspace in a cell that holds a digit empties that cell and
  leaves the focus index where it was (at \<open>index\<close>, the cell the key was pressed in).
  Backspace in an empty cell with \<open>index > 0\<close> empties cell \<open>index - 1\<close> and moves the focus
  index to \<open>index - 1\<close>, both in the same event: the previous digit is deleted and the
  focus steps back.
\<close>

theorem handleBackspace_delete_then_step_back:
  "(arr_get (inputs s) index \<noteq> [] \<longrightarrow>
      arr_get (inputs (fst (step (Keydown index Backspace) s))) index = [] \<and>
      activeInputIndex (fst (step (Keydown index Backspace) s)) = activeInputIndex s \<and>
      (activeInputIndex s = index \<longrightarrow>
         activeInputIndex (fst (step (Keydown index Backspace) s)) = index)) \<and>
   (arr_get (inputs s) index = [] \<and> index > 0 \<longrightarrow>
      arr_get (inputs (fst (step (Keydown index Backspace) s))) (index - 1) = [] \<and>
      activeInputIndex (fst (step (Keydown index Backspace) s)) = index - 1)"
proof (intro conjI impI)
  assume filled: "arr_get (inputs s) index \<noteq> []"
  show "arr_get (inputs (fst (step (Keydown index Backspace) s))) index = []"
    by (simp add: step_inputs handleKeydown_Backspace_filled[OF filled] arr_get_arr_set_same)
  show unchanged: "activeInputIndex (fst (step (Keydown index Backspace) s)) = activeInputIndex s"
    by (simp add: step_activeInputIndex handleKeydown_Backspace_filled[OF filled])
  show "activeInputIndex (fst (step (Keydown index Backspace) s)) = index"
    if "activeInputIndex s = index"
    using that unchanged by simp
next
  assume empty: "arr_get (inputs s) index = [] \<and> index > 0"
  then have d: "handleKeydown index Backspace s =
     (s\<lparr>inputs := arr_set (inputs s) (index - 1) [], activeInputIndex := index - 1\<rparr>, [])"
    by (simp add: handleKeydown_Backspace_empty)
  show "arr_get (inputs (fst (step (Keydown index Backspace) s))) (index - 1) = []"
    by (simp add: step_inputs d arr_get_arr_set_same)
  show "activeInputIndex (fst (step (Keydown index Backspace) s)) = index - 1"
    by (simp add: step_activeInputIndex d)
qed

theorem handleBackspace_delete_then_step_back_witness:
  "arr_get (inputs three_typed) 2 \<noteq> [] \<and>
   inputs (fst (step (Keydown 2 Backspace) three_typed)) = [''1'', ''2'', [], [], [], []] \<and>
   activeInputIndex (fst (step (Keydown 2 Backspace) three_typed)) = 3 \<and>
   arr_get (inputs three_typed) 3 = [] \<and> (3::nat) > 0 \<and>
   inputs (fst (step (Keydown 3 Backspace) three_typed)) = [''1'', ''2'', [], [], [], []] \<and>
   activeInputIndex (fst (step (Keydown 3 Backspace) three_typed)) = 2"
proof -
  have a: "arr_get (inputs three_typed) 2 \<noteq> []" "arr_get (inputs three_typed) 3 = []"
    "activeInputIndex three_typed = 3"
    by (simp_all add: three_typed_def arr_get_def)
  have cells: "inputs (fst (step (Keydown 2 Backspace) three_typed)) = [''1'', ''2'', [], [], [], []]"
    "inputs (fst (step (Keydown 3 Backspace) three_typed)) = [''1'', ''2'', [], [], [], []]"
    by code_simp+
  from handleBackspace_delete_then_step_back[of three_typed 2]
       handleBackspace_delete_then_step_back[of three_typed 3] a cells
  show ?thesis by simp
qed



text \<open>The page does the same on its digit displays and the browser focus.\<close>

lemma flush_page_digitDisplays: "digitDisplays (flush_page s) = digitDisplays s"
  by (simp add: flush_page_def Let_def)

lemma flush_page_activeElement: "activeElement (flush_page s) = activeElement s"
  by (simp add: flush_page_def Let_def)

lemma flush_page_currentState: "currentState_p (flush_page s) = currentState_p s"
  by (simp add: flush_page_def Let_def)

lemma flush_page_statusText: "statusText_p (flush_page s) = statusText_p s"
  by (simp add: flush_page_def Let_def)

lemma flush_page_isLoading: "isLoading_p (flush_page s) = isLoading_p s"
  by (simp add: flush_page_def Let_def)

lemma handleBackspace_page:
  "(arr_get (digitDisplays s) index \<noteq> [] \<longrightarrow>
      arr_get (digitDisplays (fst (step_page (Keydown index Backspace) s))) index = [] \<and>
      activeElement (fst (step_page (Keydown index Backspace) s)) = activeElement s) \<and>
   (arr_get (digitDisplays s) index = [] \<and> index > 0 \<longrightarrow>
      arr_get (digitDisplays (fst (step_page (Keydown index Backspace) s))) (index - 1) = [] \<and>
      activeElement (fst (step_page (Keydown index Backspace) s)) = Some (index - 1))"
  by (auto simp: step_page_def flush_page_digitDisplays flush_page_activeElement
      handleKeydown_page_def updateCurrentCode_def clearDigit_def focus_input_def arr_get_def)

section \<open>Typing a digit\<close>

lemma handleInput_rejects:
  "\<not> test_single_digit v \<Longrightarrow> handleInput index v s = (s, [])"
  by (simp add: handleInput_def)

lemma handleInput_inputs:
  "test_single_digit v \<Longrightarrow> inputs (fst (handleInput index v s)) = arr_set (inputs s) index v"
  by (simp add: handleInput_def Let_def)

lemma handleInput_activeInputIndex:
  "test_single_digit v \<Longrightarrow>
   activeInputIndex (fst (handleInput index v s)) =
     (if index < 5 then index + 1 else activeInputIndex s)"
  by (simp add: handleInput_def Let_def)

lemma handleInput_currentState:
  "currentState (fst (handleInput index v s)) = currentState s"
  by (simp add: handleInput_def Let_def)

lemma handleInput_isLoading:
  "isLoading (fst (handleInput index v s)) = isLoading s"
  by (simp add: handleInput_def Let_def)

lemma handleInput_no_timer:
  "\<not> schedules t (snd (handleInput index v s))"
  by (simp add: handleInput_def Let_def schedules_def focus_element_skipped)

text \<open>
  C8.  A value that is not exactly one decimal digit is rejected silently, whatever the
  index: the whole state is unchanged (the cell, the focus index, the status) and no
  effect is requested.  A single digit typed into cell \<open>i < 5\<close> is stored in cell \<open>i\<close> and
  moves the focus index to \<open>i + 1\<close>; typed into cell 5 it is stored and the focus index
  stays where it is, at 5.
\<close>

theorem setCellDigit_accepts_only_one_digit:
  "(\<not> test_single_digit v \<longrightarrow> step (Input i v) s = (s, [])) \<and>
   (test_single_digit v \<and> i < 5 \<longrightarrow>
      arr_get (inputs (fst (step (Input i v) s))) i = v \<and>
      activeInputIndex (fst (step (Input i v) s)) = i + 1) \<and>
   (test_single_digit v \<longrightarrow>
      arr_get (inputs (fst (step (Input 5 v) s))) 5 = v \<and>
      activeInputIndex (fst (step (Input 5 v) s)) = activeInputIndex s \<and>
      (activeInputIndex s = 5 \<longrightarrow> activeInputIndex (fst (step (Input 5 v) s)) = 5))"
proof (intro conjI impI)
  assume "\<not> test_single_digit v"
  then show "step (Input i v) s = (s, [])"
    by (simp add: step_def handleInput_rejects flush_same)
next
  assume a: "test_single_digit v \<and> i < 5"
  show "arr_get (inputs (fst (step (Input i v) s))) i = v"
    using a by (simp add: step_inputs handleInput_inputs arr_get_arr_set_same)
  show "activeInputIndex (fst (step (Input i v) s)) = i + 1"
    using a by (simp add: step_activeInputIndex handleInput_activeInputIndex)
next
  assume a: "test_single_digit v"
  show "arr_get (inputs (fst (step (Input 5 v) s))) 5 = v"
    using a by (simp add: step_inputs handleInput_inputs arr_get_arr_set_same)
  show u: "activeInputIndex (fst (step (Input 5 v) s)) = activeInputIndex s"
    using a by (simp add: step_activeInputIndex handleInput_activeInputIndex)
  show "activeInputIndex (fst (step (Input 5 v) s)) = 5" if "activeInputIndex s = 5"
    using that u by simp
qed

theorem setCellDigit_accepts_only_one_digit_witness:
  "\<not> test_single_digit ''x'' \<and> \<not> test_single_digit ''12'' \<and> \<not> test_single_digit [] \<and>
   step (Input 3 ''x'') three_typed = (three_typed, []) \<and>
   step (Input 3 ''12'') three_typed = (three_typed, []) \<and>
   step (Input 3 []) three_typed = (three_typed, []) \<and>
   test_single_digit ''4'' \<and> (3::nat) < 5 \<and>
   inputs (fst (step (Input 3 ''4'') three_typed)) = [''1'', ''2'', ''3'', ''4'', [], []] \<and>
   activeInputIndex (fst (step (Input 3 ''4'') three_typed)) = 4 \<and>
   activeInputIndex (fst (step (Input 5 ''4'') (three_typed\<lparr>activeInputIndex := 5\<rparr>))) = 5"
proof -
  have t: "\<not> test_single_digit ''x''" "\<not> test_single_digit ''12''" "\<not> test_single_digit []"
    "test_single_digit ''4''"
    by (simp_all add: test_single_digit_def is_digit_def)
  have cells: "inputs (fst (step (Input 3 ''4'') three_typed)) = [''1'', ''2'', ''3'', ''4'', [], []]"
    by code_simp
  from setCellDigit_accepts_only_one_digit[of "''x''" 3 three_typed]
       setCellDigit_accepts_only_one_digit[of "''12''" 3 three_typed]
       setCellDigit_accepts_only_one_digit[of "[]" 3 three_typed]
       setCellDigit_accepts_only_one_digit[of "''4''" 3 three_typed]
       setCellDigit_accepts_only_one_digit[of "''4''" 3 "three_typed\<lparr>activeInputIndex := 5\<rparr>"]
       t cells
  show ?thesis by simp
qed

text \<open>The page treats a typed value the same way.\<close>

lemma setCellDigit_page:
  "(\<not> test_single_digit v \<longrightarrow>
      digitDisplays (fst (step_page (Input i v) s)) = digitDisplays s \<and>
      activeElement (fst (step_page (Input i v) s)) = activeElement s \<and>
      currentState_p (fst (step_page (Input i v) s)) = currentState_p s \<and>
      statusText_p (fst (step_page (Input i v) s)) = statusText_p s \<and>
      snd (step_page (Input i v) s) = []) \<and>
   (test_single_digit v \<and> i < 5 \<and> length (digitDisplays s) = 6 \<longrightarrow>
      digitDisplays (fst (step_page (Input i v) s)) ! i = v \<and>
      activeElement (fst (step_page (Input i v) s)) = Some (i + 1)) \<and>
   (test_single_digit v \<and> length (digitDisplays s) = 6 \<longrightarrow>
      digitDisplays (fst (step_page (Input 5 v) s)) ! 5 = v \<and>
      activeElement (fst (step_page (Input 5 v) s)) = activeElement s)"
  by (auto simp: step_page_def flush_page_digitDisplays flush_page_activeElement
      flush_page_currentState flush_page_statusText handleInput_page_def Let_def
      updateCurrentCode_def animateDigitDrop_def focus_input_def test_single_digit_def)

section \<open>What a typed digit leaves alone\<close>

lemma reactive_block_lifecycle:
  "lifecycle (reactive_block s) = lifecycle s \<or>
   (lifecycle s = Error \<and> lifecycle (reactive_block s) = Idle)"
  by (cases "currentState s") (auto simp: reactive_block_def lifecycle_def Let_def)

lemma flush_lifecycle:
  "lifecycle (flush old new) = lifecycle new \<or>
   (lifecycle new = Error \<and> lifecycle (flush old new) = Idle)"
  using reactive_block_lifecycle[of new] by (simp add: flush_def)

lemma handleInput_lifecycle:
  "lifecycle (fst (handleInput index v s)) = lifecycle s"
  by (simp add: lifecycle_def handleInput_currentState handleInput_isLoading)

text \<open>
  C9 as stated fails: a digit typed while the error state stands over empty cells changes
  the lifecycle state, from Error to Idle.
\<close>

theorem setCellDigit_frame_counterexample:
  "test_single_digit ''1'' \<and>
   lifecycle (fst (step (Input 0 ''1'') error_shown)) \<noteq> lifecycle error_shown"
  by code_simp

text \<open>
  C9, amended.  A successful \<open>setCellDigit(i, d)\<close> writes cell \<open>i\<close> only: every other cell
  \<open>j \<noteq> i\<close> holds the value it held before, and the lifecycle state is either unchanged
  or was Error and has become Idle.
\<close>

theorem setCellDigit_frame:
  "test_single_digit v \<Longrightarrow>
   arr_get (inputs (fst (step (Input i v) s))) i = v \<and>
   (\<forall>j. j \<noteq> i \<longrightarrow> arr_get (inputs (fst (step (Input i v) s))) j = arr_get (inputs s) j) \<and>
   (lifecycle (fst (step (Input i v) s)) = lifecycle s \<or>
    (lifecycle s = Error \<and> lifecycle (fst (step (Input i v) s)) = Idle))"
proof (intro conjI allI impI)
  assume a: "test_single_digit v"
  show "arr_get (inputs (fst (step (Input i v) s))) i = v"
    using a by (simp add: step_inputs handleInput_inputs arr_get_arr_set_same)
  show "arr_get (inputs (fst (step (Input i v) s))) j = arr_get (inputs s) j" if "j \<noteq> i" for j
    using a that by (simp add: step_inputs handleInput_inputs arr_get_arr_set_other)
  show "lifecycle (fst (step (Input i v) s)) = lifecycle s \<or>
    (lifecycle s = Error \<and> lifecycle (fst (step (Input i v) s)) = Idle)"
    using flush_lifecycle[of s "fst (handleInput i v s)"]
    by (simp add: step_def handleInput_lifecycle)
qed

theorem setCellDigit_frame_witness:
  "test_single_digit ''4'' \<and>
   inputs (fst (step (Input 3 ''4'') three_typed)) = [''1'', ''2'', ''3'', ''4'', [], []] \<and>
   lifecycle (fst (step (Input 3 ''4'') three_typed)) = Idle \<and> lifecycle three_typed = Idle"
proof -
  have t: "test_single_digit ''4''"
    by (simp add: test_single_digit_def is_digit_def)
  have cells: "inputs (fst (step (Input 3 ''4'') three_typed)) = [''1'', ''2'', ''3'', ''4'', [], []]"
    by code_simp
  have l: "lifecycle three_typed = Idle"
    by code_simp
  from setCellDigit_frame[OF t, of 3 three_typed] l cells t
  show ?thesis by simp
qed

section \<open>A digit resets the error state\<close>

lemma concat_arr_set_nonempty:
  "v \<noteq> [] \<Longrightarrow> concat (arr_set xs i v) \<noteq> []"
  by (auto simp: arr_set_def set_update_memI)

lemma digit_resets_settled_error:
  assumes "settled s" and "lifecycle s = Error" and "test_single_digit v"
  shows "lifecycle (fst (step (Input index v) s)) = Idle \<and>
         statusText (fst (step (Input index v) s)) = default_status \<and>
         (\<forall>t. \<not> schedules t (snd (step (Input index v) s)))"
proof -
  let ?s1 = "fst (handleInput index v s)"
  from assms(2) have err: "currentState s = State_error" and idle: "\<not> isLoading s"
    by (auto simp: lifecycle_def split: if_splits ui_state.splits)
  with assms(1) have empty: "currentCode s = []"
    by (simp add: settled_def)
  from assms(3) have "v \<noteq> []"
    by (auto simp: test_single_digit_def)
  then have "concat (arr_set (inputs s) index v) \<noteq> []"
    by (rule concat_arr_set_nonempty)
  then have nonempty: "currentCode ?s1 \<noteq> []"
    unfolding currentCode_def handleInput_inputs[OF assms(3)] .
  then have fl: "flush s ?s1 = reactive_block ?s1"
    using empty by (simp add: flush_def)
  have "currentState ?s1 = State_error" "\<not> isLoading ?s1"
    using err idle by (simp_all add: handleInput_currentState handleInput_isLoading)
  then have "lifecycle (reactive_block ?s1) = Idle \<and> statusText (reactive_block ?s1) = default_status"
    using nonempty by (simp add: reactive_block_def lifecycle_def Let_def)
  then show ?thesis
    by (simp add: step_def fl handleInput_no_timer)
qed

text \<open>
  C10.  In the controller variant, in every state reachable from the initial one, a valid
  digit entered while the lifecycle state is Error returns it to Idle and restores the
  default status message in that very event: no timer is set or awaited.
\<close>

theorem digit_resets_error:
  assumes "reachable s" and "lifecycle s = Error" and "test_single_digit v"
  shows "lifecycle (fst (step (Input index v) s)) = Idle \<and>
         statusText (fst (step (Input index v) s)) = default_status \<and>
         (\<forall>t. \<not> schedules t (snd (step (Input index v) s)))"
proof -
  from assms(1) have "settled s"
    by (simp add: reachable_invariant)
  from this assms(2,3) show ?thesis
    by (rule digit_resets_settled_error)
qed

theorem digit_resets_error_witness:
  "reachable error_shown \<and> lifecycle error_shown = Error \<and> test_single_digit ''1'' \<and>
   lifecycle (fst (step (Input 0 ''1'') error_shown)) = Idle \<and>
   statusText (fst (step (Input 0 ''1'') error_shown)) = default_status"
proof -
  have h: "lifecycle error_shown = Error" "test_single_digit ''1''"
    by code_simp+
  from digit_resets_error[OF error_shown_reachable h, of 0] error_shown_reachable h
  show ?thesis by simp
qed

section \<open>A rejected code\<close>

lemma handleSubmit_start:
  "length (currentCode s) = 6 \<Longrightarrow>
   handleSubmit s = (s\<lparr>isLoading := True\<rparr>, [Set_timeout 1500 Resume_handleSubmit])"
  by (simp add: handleSubmit_def)

lemma handleSubmit_resume_wrong:
  "currentCode s \<noteq> CORRECT_CODE \<Longrightarrow>
   handleSubmit_resume s =
     (s\<lparr>currentState := State_error, buttonText := ''Wrong code!'', isLoading := False\<rparr>,
      [Shake, Set_timeout 400 Clear_inputs])"
  by (simp add: handleSubmit_resume_def)


lemma reactive_block_currentState_empty:
  "currentCode s = [] \<Longrightarrow> currentState (reactive_block s) = currentState s"
  by (simp add: reactive_block_def Let_def)

lemma lifecycle_cong:
  "currentState a = currentState b \<Longrightarrow> isLoading a = isLoading b \<Longrightarrow> lifecycle a = lifecycle b"
  by (simp add: lifecycle_def)

lemma clear_inputs_step:
  "inputs (fst (step (Timer Clear_inputs) s)) = replicate 6 [] \<and>
   activeInputIndex (fst (step (Timer Clear_inputs) s)) = 0 \<and>
   lifecycle (fst (step (Timer Clear_inputs) s)) = lifecycle s \<and>
   snd (step (Timer Clear_inputs) s) = []"
proof -
  let ?c = "fst (clear_inputs s)"
  have code: "currentCode ?c = []"
    by (simp add: clear_inputs_def currentCode_def)
  have same: "currentState ?c = currentState s" "isLoading ?c = isLoading s"
    by (simp_all add: clear_inputs_def)
  have "currentState (flush s ?c) = currentState s"
    using code same by (simp add: flush_def reactive_block_currentState_empty)
  moreover have "isLoading (flush s ?c) = isLoading s"
    using same by (simp add: flush_isLoading)
  ultimately have "lifecycle (flush s ?c) = lifecycle s"
    by (rule lifecycle_cong)
  then show ?thesis
    by (simp add: step_def flush_inputs flush_activeInputIndex)
       (simp add: clear_inputs_def focus_element_skipped)
qed

text \<open>
  C2 as stated fails on both runs below, each from the initial state with the wrong code
  111111 typed and the button clicked.  When the code is still in the cells as the
  verification resolves, the update that follows resets the error state at once, so the
  lifecycle state is Idle, not Error.  When the cells were emptied during the
  verification, the error state stands, and it still stands after the 400 ms timer has
  fired: the timer does not return the lifecycle state to Idle.  The last line is the
  handler and the timer callback alone, with no update in between.
\<close>

theorem wrong_code_counterexample:
  "length (currentCode (fst (run (type_wrong @ [Click]) init))) = 6 \<and>
   lifecycle (fst (run (type_wrong @ [Click]) init)) = Verifying \<and>
   lifecycle (fst (run (type_wrong @ [Click, Timer Resume_handleSubmit]) init)) = Idle \<and>
   lifecycle (fst (run (type_wrong @ [Click] @ erase_all @ [Timer Resume_handleSubmit]) init))
     = Error \<and>
   lifecycle (fst (run (type_wrong @ [Click] @ erase_all @
                        [Timer Resume_handleSubmit, Timer Clear_inputs]) init)) = Error \<and>
   lifecycle (fst (clear_inputs (fst (handleSubmit_resume (fst (run (type_wrong @ [Click]) init))))))
     = Error"
  by code_simp

text \<open>
  C2, amended.  In the controller variant \<open>submit()\<close> on a complete code starts the
  verification (the lifecycle state is Verifying).  When the verification resolves false,
  \<open>handleSubmit\<close> sets the error state, requests the shake and sets a timer of 400 ms.
  When that timer fires, all six cells are cleared and the focus index is set to 0; the
  timer leaves the lifecycle state as it finds it.
\<close>

theorem wrong_code_shake_then_clear:
  assumes "length (currentCode s) = 6" and "currentCode r \<noteq> CORRECT_CODE"
  shows "handleSubmit s = (s\<lparr>isLoading := True\<rparr>, [Set_timeout 1500 Resume_handleSubmit]) \<and>
         lifecycle (fst (handleSubmit s)) = Verifying \<and>
         currentState (fst (handleSubmit_resume r)) = State_error \<and>
         lifecycle (fst (handleSubmit_resume r)) = Error \<and>
         snd (step (Timer Resume_handleSubmit) r) = [Shake, Set_timeout 400 Clear_inputs] \<and>
         inputs (fst (step (Timer Clear_inputs) t)) = replicate 6 [] \<and>
         activeInputIndex (fst (step (Timer Clear_inputs) t)) = 0 \<and>
         lifecycle (fst (step (Timer Clear_inputs) t)) = lifecycle t"
  using assms clear_inputs_step[of t]
  by (simp add: handleSubmit_start handleSubmit_resume_wrong step_def lifecycle_def)

theorem wrong_code_shake_then_clear_witness:
  "length (currentCode (fst (run type_wrong init))) = 6 \<and>
   currentCode (fst (run (type_wrong @ [Click]) init)) \<noteq> CORRECT_CODE \<and>
   snd (step (Timer Resume_handleSubmit) (fst (run (type_wrong @ [Click]) init)))
     = [Shake, Set_timeout 400 Clear_inputs] \<and>
   inputs (fst (step (Timer Clear_inputs)
      (fst (run (type_wrong @ [Click, Timer Resume_handleSubmit]) init)))) = replicate 6 []"
proof -
  have h: "length (currentCode (fst (run type_wrong init))) = 6"
    "currentCode (fst (run (type_wrong @ [Click]) init)) \<noteq> CORRECT_CODE"
    by code_simp+
  from wrong_code_shake_then_clear[OF h,
      of "fst (run (type_wrong @ [Click, Timer Resume_handleSubmit]) init)"] h
  show ?thesis by simp
qed

text \<open>The page sets the error state and shakes, and keeps the rejected digits.\<close>

lemma wrong_code_page:
  "currentCode_p s \<noteq> correctCode s \<Longrightarrow>
   snd (step_page (Timer Resume_simulateVerification) s) = [Shake] \<and>
   lifecycle_page (fst (step_page (Timer Resume_simulateVerification) s)) = Error \<and>
   digitDisplays (fst (step_page (Timer Resume_simulateVerification) s)) = digitDisplays s"
  by (simp add: step_page_def simulateVerification_resume_def setState_def Let_def
      lifecycle_page_def flush_page_isLoading flush_page_currentState
      flush_page_digitDisplays default_status_def)

section \<open>While a verification is in flight\<close>








text \<open>
  On the page the button is disabled by the update while \<open>isLoading\<close> holds, but the
  Enter key is not: with a complete code it calls \<open>handleSubmit\<close> again.
\<close>

lemma loading_disables_button_page:
  "isLoading_p s \<Longrightarrow> isButtonDisabled_p (flush_page s)"
  by (simp add: flush_page_def Let_def)

lemma enter_resubmits_page:
  "isLoading_p s \<Longrightarrow> isCodeComplete s \<Longrightarrow>
   snd (step_page (Keydown index Enter) s) = [Set_timeout 1500 Resume_simulateVerification]"
  by (simp add: step_page_def handleKeydown_page_def handleSubmit_page_def)

section \<open>After a success\<close>




section \<open>Submitting an incomplete code\<close>







section \<open>Completing the code\<close>

text \<open>
  The page's \<open>handleInput\<close> decides on the automatic submit by \<open>isCodeComplete\<close>, which
  still holds the value of the update before the keystroke: after any update that left
  the code incomplete, no keystroke schedules a submit.  The end of a paste decides by the
  length of the pasted digits and does submit.
\<close>

lemma handleInput_page_reads_stale_flag:
  "test_single_digit v \<Longrightarrow>
   schedules Call_handleSubmit (snd (handleInput_page index v s)) = isCodeComplete s"
  by (simp add: handleInput_page_def Let_def schedules_def updateCurrentCode_def
      animateDigitDrop_def focus_input_def)

lemma flush_page_isCodeComplete:
  "isCodeComplete (flush_page s) =
     (length (currentCode_p s) = 6 \<and> list_all is_digit (currentCode_p s))"
  by (simp add: flush_page_def Let_def)

lemma completing_keystroke_submits_nothing_page:
  "length (currentCode_p s) \<noteq> 6 \<Longrightarrow> test_single_digit v \<Longrightarrow>
   \<not> schedules Call_handleSubmit (snd (step_page (Input index v) (flush_page s)))"
  by (simp add: step_page_def handleInput_page_reads_stale_flag flush_page_isCodeComplete)

lemma finish_paste_submits:
  "schedules Call_handleSubmit (snd (finish_paste len s)) = (len \<ge> 6)"
  by (simp add: finish_paste_def Let_def schedules_def)

text \<open>
  C3 does not hold of the code.  Typing the six digits of the demo code from the initial
  state completes the code, in the page variant and in the controller variant, and no
  submit is scheduled: the page sets no timer for \<open>handleSubmit\<close> and starts no
  verification, the controller requests no effect at all, and the lifecycle state stays
  Idle.  Only the click starts the verification, which then ends in Success.
\<close>

theorem typing_the_code_submits_nothing:
  "\<not> schedules Call_handleSubmit (snd (run_page type_correct init_page)) \<and>
   \<not> schedules Resume_simulateVerification (snd (run_page type_correct init_page)) \<and>
   currentCode_p (fst (run_page type_correct init_page)) = ''123456'' \<and>
   isCodeComplete (fst (run_page type_correct init_page)) \<and>
   lifecycle_page (fst (run_page type_correct init_page)) = Idle \<and>
   snd (run type_correct init) = [] \<and>
   currentCode (fst (run type_correct init)) = ''123456'' \<and>
   lifecycle (fst (run type_correct init)) = Idle \<and>
   lifecycle (fst (run (type_correct @ [Click]) init)) = Verifying \<and>
   lifecycle (fst (run (type_correct @ [Click, Timer Resume_handleSubmit]) init)) = Success"
  by code_simp

section \<open>Pasting on the page\<close>

text \<open>
  The page variant pastes differently, as the specification notes: every cell is emptied
  and the digits are dropped in from the first cell on.
\<close>

lemma handlePaste_page_clears_first:
  "strip_non_digits t \<noteq> [] \<Longrightarrow>
   digitDisplays (fst (handlePaste_page index t s)) = map (\<lambda>_. []) (digitDisplays s)"
  by (simp add: handlePaste_page_def Let_def)

lemma paste_event_page_clears_first:
  "strip_non_digits t \<noteq> [] \<Longrightarrow>
   digitDisplays (fst (paste_event_page index t s)) = map (\<lambda>_. []) (digitDisplays s)"
  by (cases "activeElement s")
     (simp_all add: paste_event_page_def handleGlobalPaste_def handlePaste_page_def Let_def)

text \<open>
  The example of the specification on the page: the paste sets every timer twice, and once
  they have all fired the two digits stand in the first two cells.
\<close>

lemma handlePaste_page_example:
  "digitDisplays (fst (run_page (type_correct @
      [Paste 4 ''99'', Timer (Drop_digit 0 ''9''), Timer (Drop_digit 0 ''9''),
       Timer (Drop_digit 1 ''9''), Timer (Drop_digit 1 ''9''),
       Timer (Finish_paste 2), Timer (Finish_paste 2)]) init_page))
     = [''9'', ''9'', [], [], [], []] \<and>
   snd (step_page (Paste 4 ''99'') (fst (run_page type_correct init_page))) =
     [Set_timeout 0 (Drop_digit 0 ''9''), Set_timeout 100 (Drop_digit 1 ''9''),
      Set_timeout 400 (Finish_paste 2),
      Set_timeout 0 (Drop_digit 0 ''9''), Set_timeout 100 (Drop_digit 1 ''9''),
      Set_timeout 400 (Finish_paste 2)]"
  by code_simp

end
